theory Spec2Isabelle
  imports Main "HOL-Library.Sublist"
begin

section \<open>The values the tool receives\<close>

text \<open>
  \<^verbatim>\<open>make_nws_request\<close> hands \<^verbatim>\<open>get_tracking\<close> either \<^verbatim>\<open>None\<close> (any failure of the
  request) or whatever \<^verbatim>\<open>response.json()\<close> decoded: \<^verbatim>\<open>None\<close>, a bool, an int, a float,
  a str, a list or a dict with string keys. The type below is that set of Python values.

  \<^item> \<open>JNull\<close> is \<^verbatim>\<open>None\<close>, so it stands both for the failed request and for a decoded
    JSON \<^verbatim>\<open>null\<close>: the program cannot tell them apart either.
  \<^item> The program observes only two things of a float: whether it is zero (its truth
    value) and its \<^verbatim>\<open>str\<close>. \<open>JFloat nz shown\<close> carries exactly these two.
  \<^item> A dict is the list of its items in insertion order; the keys of a dict are
    distinct, and a lookup reads the item with that key.
  \<^item> Text is ASCII text: a \<open>char\<close> is one code point below 128. Case mapping and
    escaping of other code points are not part of this development.
\<close>

datatype json =
    JNull
  | JBool bool
  | JInt int
  | JFloat bool string
  | JStr string
  | JList "json list"
  | JDict "(string \<times> json) list"

text \<open>The exceptions the code can raise, each with the text \<^verbatim>\<open>str(e)\<close> gives.\<close>

datatype pyexc =
    AttributeError string
  | TypeError string
  | KeyError string
  | IndexError string

fun exc_str :: "pyexc \<Rightarrow> string" where
  "exc_str (AttributeError m) = m"
| "exc_str (TypeError m) = m"
| "exc_str (KeyError m) = m"
| "exc_str (IndexError m) = m"

text \<open>Sequencing of steps that may raise: the first exception ends the run.\<close>

fun and_then :: "pyexc + 'a \<Rightarrow> ('a \<Rightarrow> pyexc + 'b) \<Rightarrow> pyexc + 'b" where
  "and_then (Inl e) f = Inl e"
| "and_then (Inr x) f = f x"

subsection \<open>Python's built-in operations on these values\<close>

text \<open>Truth value, as \<^verbatim>\<open>if x\<close> and \<^verbatim>\<open>not x\<close> test it.\<close>

fun truthy :: "json \<Rightarrow> bool" where
  "truthy JNull = False"
| "truthy (JBool b) = b"
| "truthy (JInt i) = (i \<noteq> 0)"
| "truthy (JFloat nz shown) = nz"
| "truthy (JStr s) = (s \<noteq> [])"
| "truthy (JList xs) = (xs \<noteq> [])"
| "truthy (JDict kvs) = (kvs \<noteq> [])"

fun type_name :: "json \<Rightarrow> string" where
  "type_name JNull = ''NoneType''"
| "type_name (JBool b) = ''bool''"
| "type_name (JInt i) = ''int''"
| "type_name (JFloat nz shown) = ''float''"
| "type_name (JStr s) = ''str''"
| "type_name (JList xs) = ''list''"
| "type_name (JDict kvs) = ''dict''"

definition no_attribute :: "json \<Rightarrow> string \<Rightarrow> pyexc" where
  "no_attribute v a =
     AttributeError ([CHR 0x27] @ type_name v @ [CHR 0x27] @ '' object has no attribute ''
                     @ [CHR 0x27] @ a @ [CHR 0x27])"

text \<open>
  \<^verbatim>\<open>d.get(key, default)\<close>: only a dict has the method. The default is returned when
  the key is missing, not when its value is \<^verbatim>\<open>None\<close>.
\<close>

definition dict_get :: "(string \<times> json) list \<Rightarrow> string \<Rightarrow> json \<Rightarrow> json" where
  "dict_get kvs k d = (case map_of kvs k of None \<Rightarrow> d | Some v \<Rightarrow> v)"

fun py_get :: "json \<Rightarrow> string \<Rightarrow> json \<Rightarrow> pyexc + json" where
  "py_get (JDict kvs) k d = Inr (dict_get kvs k d)"
| "py_get v k d = Inl (no_attribute v ''get'')"

text \<open>
  \<^verbatim>\<open>x[0]\<close>. A str yields its first character as a str; a dict decoded from JSON has
  no key \<^verbatim>\<open>0\<close>, so the lookup raises \<^verbatim>\<open>KeyError(0)\<close>, whose \<^verbatim>\<open>str\<close> is \<^verbatim>\<open>0\<close>.
\<close>

fun py_index0 :: "json \<Rightarrow> pyexc + json" where
  "py_index0 (JList (x # xs)) = Inr x"
| "py_index0 (JList []) = Inl (IndexError ''list index out of range'')"
| "py_index0 (JStr (c # cs)) = Inr (JStr [c])"
| "py_index0 (JStr []) = Inl (IndexError ''string index out of range'')"
| "py_index0 (JDict kvs) = Inl (KeyError ''0'')"
| "py_index0 v =
     Inl (TypeError ([CHR 0x27] @ type_name v @ [CHR 0x27] @ '' object is not subscriptable''))"

text \<open>\<^verbatim>\<open>len(x)\<close>.\<close>

fun py_len :: "json \<Rightarrow> pyexc + nat" where
  "py_len (JList xs) = Inr (length xs)"
| "py_len (JStr s) = Inr (length s)"
| "py_len (JDict kvs) = Inr (length kvs)"
| "py_len v =
     Inl (TypeError (''object of type '' @ [CHR 0x27] @ type_name v @ [CHR 0x27]
                     @ '' has no len()''))"

text \<open>\<^verbatim>\<open>str.upper\<close> on ASCII text.\<close>

definition upper_char :: "char \<Rightarrow> char" where
  "upper_char c =
     (let n = (of_char c :: nat)
      in if 97 \<le> n \<and> n \<le> 122 then char_of (n - 32) else c)"

definition upper :: "string \<Rightarrow> string" where
  "upper s = map upper_char s"

fun py_upper :: "json \<Rightarrow> pyexc + string" where
  "py_upper (JStr s) = Inr (upper s)"
| "py_upper v = Inl (no_attribute v ''upper'')"

text \<open>\<^verbatim>\<open>str(n)\<close> for an int: decimal digits, with a minus sign below zero.\<close>

fun digits :: "nat \<Rightarrow> string" where
  "digits n =
     (if n < 10 then [char_of (48 + n)] else digits (n div 10) @ [char_of (48 + n mod 10)])"

declare digits.simps [simp del]

definition str_of_int :: "int \<Rightarrow> string" where
  "str_of_int i = (if i < 0 then ''-'' @ digits (nat (- i)) else digits (nat i))"

text \<open>\<^verbatim>\<open>sep.join(parts)\<close>.\<close>

fun join :: "string \<Rightarrow> string list \<Rightarrow> string" where
  "join sep [] = []"
| "join sep [p] = p"
| "join sep (p # q # ps) = p @ sep @ join sep (q # ps)"

text \<open>
  \<^verbatim>\<open>repr\<close> of a str: single quotes, unless the text holds a single quote and no
  double quote; the quote in use and the backslash are escaped, tab, newline and
  carriage return are written \<^verbatim>\<open>\t\<close>, \<^verbatim>\<open>\n\<close>, \<^verbatim>\<open>\r\<close>, and the other control
  characters as \<^verbatim>\<open>\xhh\<close>.
\<close>

definition hex_digit :: "nat \<Rightarrow> char" where
  "hex_digit n = (if n < 10 then char_of (48 + n) else char_of (87 + n))"

definition escape_char :: "char \<Rightarrow> char \<Rightarrow> string" where
  "escape_char q c =
     (let n = (of_char c :: nat)
      in if c = q \<or> c = CHR 0x5C then [CHR 0x5C, c]
         else if c = CHR 0x09 then [CHR 0x5C, CHR ''t'']
         else if c = CHR 0x0A then [CHR 0x5C, CHR ''n'']
         else if c = CHR 0x0D then [CHR 0x5C, CHR ''r'']
         else if n < 32 \<or> 127 \<le> n
           then [CHR 0x5C, CHR ''x'', hex_digit (n div 16), hex_digit (n mod 16)]
         else [c])"

definition str_repr :: "string \<Rightarrow> string" where
  "str_repr s =
     (let q = (if CHR 0x27 \<in> set s \<and> CHR 0x22 \<notin> set s then CHR 0x22 else CHR 0x27)
      in [q] @ concat (map (escape_char q) s) @ [q])"

text \<open>\<^verbatim>\<open>repr(x)\<close>, which is what a list or a dict shows of its elements.\<close>

primrec py_repr :: "json \<Rightarrow> string" where
  "py_repr JNull = ''None''"
| "py_repr (JBool b) = (if b then ''True'' else ''False'')"
| "py_repr (JInt i) = str_of_int i"
| "py_repr (JFloat nz shown) = shown"
| "py_repr (JStr s) = str_repr s"
| "py_repr (JList xs) = ''['' @ join '', '' (map py_repr xs) @ '']''"
| "py_repr (JDict kvs) =
     ''{'' @ join '', '' (map (\<lambda>(k, r). str_repr k @ '': '' @ r)
                              (map (map_prod id py_repr) kvs)) @ ''}''"

text \<open>\<^verbatim>\<open>str(x)\<close>, which is what an f-string field \<^verbatim>\<open>{x}\<close> inserts.\<close>

definition py_str :: "json \<Rightarrow> string" where
  "py_str v = (case v of JStr s \<Rightarrow> s | _ \<Rightarrow> py_repr v)"

section \<open>The program\<close>

subsection \<open>\<^verbatim>\<open>_format_carrier\<close>\<close>

text \<open>
  \<^verbatim>\<open>return slug.upper() if slug else "Unknown Carrier"\<close>. The argument is whatever
  \<^verbatim>\<open>shipment.get("slug")\<close> returned.
\<close>

definition format_carrier :: "json \<Rightarrow> pyexc + string" where
  "format_carrier slug = (if truthy slug then py_upper slug else Inr ''Unknown Carrier'')"

subsection \<open>\<^verbatim>\<open>_create_summary\<close>\<close>

text \<open>
  The status dispatch of \<^verbatim>\<open>_create_summary\<close> (the \<^verbatim>\<open>if\<close>/\<^verbatim>\<open>elif\<close> chain of its second
  half), on the values its first half extracted. Nothing in it can raise. The literals
  are the source's, character for character.
\<close>

definition summary_text ::
  "json \<Rightarrow> string \<Rightarrow> json \<Rightarrow> json \<Rightarrow> json \<Rightarrow> json \<Rightarrow> json \<Rightarrow> string" where
  "summary_text status carrier tracking_num location remark delivery_date eta =
     (if status = JStr ''Delivered'' then
        '' Delivered via '' @ carrier
        @ (if truthy delivery_date then '' on '' @ py_str delivery_date else [])
        @ (if truthy location then '' at '' @ py_str location else [])
      else if status = JStr ''OutForDelivery'' then
        '' Out for delivery via '' @ carrier
        @ (if truthy location then '' from '' @ py_str location else [])
      else if status = JStr ''InTransit'' then
        ''In transit via '' @ carrier
        @ (if truthy location then '', currently in '' @ py_str location else [])
        @ (if truthy remark then '' - '' @ py_str remark else [])
        @ (if truthy eta then ''\<newline>   Expected delivery: '' @ py_str eta else [])
      else if status = JStr ''Exception'' then
        ''Exception via '' @ carrier
        @ (if truthy location then '' at '' @ py_str location else [])
        @ (if truthy remark then '' - '' @ py_str remark else [])
      else if status = JStr ''PickedUp'' then
        ''Picked up via '' @ carrier
        @ (if truthy location then '' from '' @ py_str location else [])
      else if status = JStr ''InfoReceived'' then
        ''Shipment information received by '' @ carrier
      else
        (if truthy status then py_str status @ '' via '' @ carrier
         else ''Tracking '' @ py_str tracking_num @ '' via '' @ carrier)
        @ (if truthy location \<and> truthy remark
             then '' - '' @ py_str remark @ '' ('' @ py_str location @ '')''
           else if truthy remark then '' - '' @ py_str remark
           else []))"

text \<open>
  \<^verbatim>\<open>_create_summary\<close>: the extraction, in the source's order (so that the first step
  that raises is the source's), then the dispatch.
\<close>

definition create_summary :: "json \<Rightarrow> pyexc + string" where
  "create_summary shipment =
     and_then (py_get shipment ''tracking_number'' (JStr ''Unknown'')) (\<lambda>tracking_num.
     and_then (py_get shipment ''slug'' JNull) (\<lambda>slug.
     and_then (format_carrier slug) (\<lambda>carrier.
     and_then (py_get shipment ''tag'' JNull) (\<lambda>status.
     and_then (py_get shipment ''checkpoints'' (JList [])) (\<lambda>checkpoints.
     and_then (if truthy checkpoints then py_index0 checkpoints else Inr (JDict [])) (\<lambda>latest.
     and_then (py_get latest ''city'' (JStr [])) (\<lambda>location.
     and_then (py_get latest ''remark'' (JStr [])) (\<lambda>remark.
     and_then (py_get shipment ''delivery_date'' JNull) (\<lambda>delivery_date.
     and_then (py_get shipment ''expected_delivery_date'' JNull) (\<lambda>eta.
     Inr (summary_text status carrier tracking_num location remark delivery_date eta)
     ))))))))))"

subsection \<open>\<^verbatim>\<open>get_tracking\<close>\<close>

text \<open>
  The two annotations added after the summary: the time of \<^verbatim>\<open>checkpoints[0]\<close> and the
  number of checkpoints.
\<close>

definition annotate :: "json \<Rightarrow> string \<Rightarrow> pyexc + string" where
  "annotate shipment summary =
     and_then (py_get shipment ''checkpoints'' (JList [])) (\<lambda>checkpoints.
     and_then
       (if truthy checkpoints then
          and_then (py_index0 checkpoints) (\<lambda>c0.
          and_then (py_get c0 ''date'' (JStr [])) (\<lambda>latest_time.
          Inr (if truthy latest_time
               then summary @ ''\<newline>   Last updated: '' @ py_str latest_time
               else summary)))
        else Inr summary) (\<lambda>summary1.
     and_then (py_len checkpoints) (\<lambda>event_count.
     Inr (if event_count > 0
          then summary1 @ ''\<newline>   Total events: '' @ digits event_count
          else summary1))))"

text \<open>The body of the \<^verbatim>\<open>try\<close> statement.\<close>

definition protected_body :: "json \<Rightarrow> pyexc + string" where
  "protected_body data =
     (case data of
        JList (shipment # rest) \<Rightarrow>
          and_then (create_summary shipment) (\<lambda>summary. annotate shipment summary)
      | _ \<Rightarrow> Inr ''No shipment data found in the response.'')"

text \<open>
  \<^verbatim>\<open>get_tracking\<close>, from the fetched \<^verbatim>\<open>data\<close> on. An \<open>Inl\<close> result would be an exception
  that leaves the function; \<open>Inr\<close> is the returned string. The test \<^verbatim>\<open>not data\<close>
  stands before the \<^verbatim>\<open>try\<close>; the handler \<^verbatim>\<open>except Exception as e\<close> takes every
  exception of the body, all of which are subclasses of \<^verbatim>\<open>Exception\<close>.
\<close>

definition get_tracking :: "json \<Rightarrow> pyexc + string" where
  "get_tracking data =
     (if \<not> truthy data then
        Inr '' Tracking information could not be retrieved. Please verify the tracking number.''
      else
        (case protected_body data of
           Inr summary \<Rightarrow> Inr summary
         | Inl e \<Rightarrow> Inr (''Error processing tracking data: '' @ exc_str e)))"

section \<open>The vocabulary and the examples of the specification\<close>

text \<open>
  The specification names the attributes of a shipment \<open>trackingNumber\<close>, \<open>carrierSlug\<close>,
  \<open>statusTag\<close>, \<open>deliveryDate\<close>, \<open>expectedDeliveryDate\<close> and \<open>checkpoints\<close>; in the
  response they are the keys \<^verbatim>\<open>tracking_number\<close>, \<^verbatim>\<open>slug\<close>, \<^verbatim>\<open>tag\<close>, \<^verbatim>\<open>delivery_date\<close>,
  \<^verbatim>\<open>expected_delivery_date\<close> and \<^verbatim>\<open>checkpoints\<close> that the code reads. An attribute is
  absent when its key is missing.
\<close>

definition known_tags :: "string list" where
  "known_tags =
     [''Delivered'', ''OutForDelivery'', ''InTransit'', ''Exception'', ''PickedUp'',
      ''InfoReceived'']"

text \<open>The response whose only shipment is the delivered parcel of the specification.\<close>

definition delivered_example :: json where
  "delivered_example =
     JList [JDict
       [(''tag'', JStr ''Delivered''),
        (''slug'', JStr ''ups''),
        (''delivery_date'', JStr ''2024-01-05''),
        (''checkpoints'',
           JList [JDict [(''city'', JStr ''Austin''), (''date'', JStr ''2024-01-05T10:00'')]])]]"

text \<open>The response whose only shipment is the parcel in transit of the specification.\<close>

definition in_transit_example :: json where
  "in_transit_example =
     JList [JDict
       [(''tag'', JStr ''InTransit''),
        (''slug'', JStr ''dhl''),
        (''expected_delivery_date'', JStr ''2024-02-01''),
        (''checkpoints'',
           JList [JDict [(''city'', JStr ''Reno''), (''remark'', JStr ''Departed facility'')]])]]"

text \<open>A shipment with an unrecognised tag and no checkpoints.\<close>

definition customs_hold_example :: "(string \<times> json) list" where
  "customs_hold_example = [(''tag'', JStr ''CustomsHold''), (''slug'', JStr ''ups'')]"

text \<open>A shipment whose tag is present and is the empty string.\<close>

definition empty_tag_example :: "(string \<times> json) list" where
  "empty_tag_example =
     [(''tag'', JStr []), (''tracking_number'', JStr ''T1''), (''slug'', JStr ''ups'')]"

text \<open>Whether a result is a returned string that starts with the given text.\<close>

definition begins_with :: "string \<Rightarrow> pyexc + string \<Rightarrow> bool" where
  "begins_with p r = (case r of Inr out \<Rightarrow> prefix p out | Inl e \<Rightarrow> False)"

text \<open>
  The latest checkpoint of a shipment, as a record: the first element of the checkpoint
  sequence, and the empty record when the sequence is empty (the source's
  \<^verbatim>\<open>checkpoints[0] if checkpoints else {}\<close>).
\<close>

definition latest_is :: "json list \<Rightarrow> (string \<times> json) list \<Rightarrow> bool" where
  "latest_is cps ckv = (case cps of [] \<Rightarrow> ckv = [] | c # more \<Rightarrow> c = JDict ckv)"

text \<open>Two shipments that differ only in their second, older checkpoint.\<close>

definition two_events_a :: "(string \<times> json) list" where
  "two_events_a =
     [(''tag'', JStr ''PickedUp''),
      (''slug'', JStr ''ups''),
      (''checkpoints'',
         JList [JDict [(''city'', JStr ''Austin''), (''date'', JStr ''2024-03-02'')],
                JDict [(''city'', JStr ''Dallas''), (''date'', JStr ''2024-03-01'')]])]"

definition two_events_b :: "(string \<times> json) list" where
  "two_events_b =
     [(''tag'', JStr ''PickedUp''),
      (''slug'', JStr ''ups''),
      (''checkpoints'',
         JList [JDict [(''city'', JStr ''Austin''), (''date'', JStr ''2024-03-02'')],
                JDict [(''city'', JStr ''Houston''), (''remark'', JStr ''Label created'')]])]"

section \<open>Auxiliary facts\<close>

lemma dict_get_Nil [simp]: "dict_get [] k d = d"
  by (simp add: dict_get_def)

lemma py_str_JStr [simp]: "py_str (JStr s) = s"
  by (simp add: py_str_def)

lemma protected_body_raises_truthy: "protected_body data = Inl e \<Longrightarrow> truthy data"
  by (auto simp: protected_body_def split: json.splits list.splits)

text \<open>On a dict, every \<^verbatim>\<open>get\<close> of \<^verbatim>\<open>_create_summary\<close> succeeds.\<close>

lemma create_summary_dict:
  "create_summary (JDict kvs) =
     and_then (format_carrier (dict_get kvs ''slug'' JNull)) (\<lambda>carrier.
     and_then (if truthy (dict_get kvs ''checkpoints'' (JList []))
               then py_index0 (dict_get kvs ''checkpoints'' (JList []))
               else Inr (JDict [])) (\<lambda>latest.
     and_then (py_get latest ''city'' (JStr [])) (\<lambda>location.
     and_then (py_get latest ''remark'' (JStr [])) (\<lambda>remark.
     Inr (summary_text (dict_get kvs ''tag'' JNull) carrier
            (dict_get kvs ''tracking_number'' (JStr ''Unknown'')) location remark
            (dict_get kvs ''delivery_date'' JNull)
            (dict_get kvs ''expected_delivery_date'' JNull))))))"
  by (simp add: create_summary_def)

lemma create_summary_records:
  assumes "format_carrier (dict_get kvs ''slug'' JNull) = Inr carrier"
    and "dict_get kvs ''checkpoints'' (JList []) = JList cps"
    and "latest_is cps ckv"
  shows "create_summary (JDict kvs) =
           Inr (summary_text (dict_get kvs ''tag'' JNull) carrier
                  (dict_get kvs ''tracking_number'' (JStr ''Unknown''))
                  (dict_get ckv ''city'' (JStr [])) (dict_get ckv ''remark'' (JStr []))
                  (dict_get kvs ''delivery_date'' JNull)
                  (dict_get kvs ''expected_delivery_date'' JNull))"
  using assms by (auto simp: create_summary_dict latest_is_def split: list.splits)


section \<open>The tool always answers with a string\<close>

text \<open>
  Claim C1. For every fetched value, absent, malformed or well formed, \<^verbatim>\<open>get_tracking\<close>
  returns a string and lets no exception leave it; and whenever the extraction or the
  classification raises an exception \<open>e\<close>, the string returned is
  \<^verbatim>\<open>Error processing tracking data: \<close> followed by \<^verbatim>\<open>str(e)\<close>.
\<close>

theorem get_tracking_total:
  "(\<exists>out. get_tracking data = Inr out) \<and>
   (\<forall>e. protected_body data = Inl e \<longrightarrow>
        get_tracking data = Inr (''Error processing tracking data: '' @ exc_str e))"
  using protected_body_raises_truthy [of data]
  by (auto simp: get_tracking_def split: sum.splits)

text \<open>
  A response whose first element is the number 5: its \<^verbatim>\<open>get\<close> raises, and the answer
  is the error text with the exception's message.
\<close>

theorem get_tracking_total_witness:
  "protected_body (JList [JInt 5]) = Inl (no_attribute (JInt 5) ''get'') \<and>
   get_tracking (JList [JInt 5]) =
     Inr (''Error processing tracking data: '' @ [CHR 0x27] @ ''int'' @ [CHR 0x27]
          @ '' object has no attribute '' @ [CHR 0x27] @ ''get'' @ [CHR 0x27])"
proof -
  have raised: "protected_body (JList [JInt 5]) = Inl (no_attribute (JInt 5) ''get'')"
    by (simp add: protected_body_def create_summary_def)
  from get_tracking_total [of "JList [JInt 5]"] raised show ?thesis
    by (simp add: no_attribute_def)
qed

section \<open>The fixed answers\<close>

text \<open>
  Claim C2, as the specification words it: an absent fetch result is answered by exactly
  \<^verbatim>\<open>Tracking information could not be retrieved. Please verify the tracking number.\<close>
  The string of the source starts with a space, so the answer is not that text.
\<close>

theorem absent_message_counterexample:
  "get_tracking JNull \<noteq>
     Inr ''Tracking information could not be retrieved. Please verify the tracking number.''"
  by (simp add: get_tracking_def)

text \<open>
  Claim C2, amended. An absent fetch result is answered by exactly the source's literal:
  one space, then
  \<^verbatim>\<open>Tracking information could not be retrieved. Please verify the tracking number.\<close>
\<close>

theorem absent_message:
  "get_tracking JNull =
     Inr '' Tracking information could not be retrieved. Please verify the tracking number.''"
  by (simp add: get_tracking_def)

text \<open>
  Claim C3 says that a present but empty sequence, and a present value that is no
  sequence, are answered by \<^verbatim>\<open>No shipment data found in the response.\<close> The code
  answers the empty list differently: \<^verbatim>\<open>not data\<close> holds of \<^verbatim>\<open>[]\<close>, so the function
  returns the message of the absent result before it reaches the test
  \<^verbatim>\<open>len(data) > 0\<close> that was written for this case.
\<close>

theorem empty_list_message:
  "get_tracking (JList []) =
     Inr '' Tracking information could not be retrieved. Please verify the tracking number.''"
  by (simp add: get_tracking_def)

text \<open>
  What the code does answer with that sentence: every value that is true and is not a
  list, such as a dict with an entry or a number other than zero.
\<close>

lemma true_non_list_message:
  assumes "truthy data" and "\<forall>xs. data \<noteq> JList xs"
  shows "get_tracking data = Inr ''No shipment data found in the response.''"
  using assms by (cases data) (simp_all add: get_tracking_def protected_body_def)

section \<open>Carrier formatting\<close>


section \<open>The two worked examples\<close>

text \<open>
  Claim C5, as the specification words it: for the delivered parcel the output begins
  with \<^verbatim>\<open>Delivered via UPS on 2024-01-05 at Austin\<close>. It does not: the sentence of the
  \<^verbatim>\<open>Delivered\<close> branch starts with a space.
\<close>

theorem delivered_example_counterexample:
  "\<not> begins_with ''Delivered via UPS on 2024-01-05 at Austin'' (get_tracking delivered_example)"
  by code_simp

text \<open>
  Claim C5, amended. For the delivered parcel the output is one space, then
  \<^verbatim>\<open>Delivered via UPS on 2024-01-05 at Austin\<close>, followed by the line
  \<^verbatim>\<open>Last updated: 2024-01-05T10:00\<close> and the line \<^verbatim>\<open>Total events: 1\<close>, each of the two
  indented by three spaces.
\<close>

theorem delivered_example_output:
  "get_tracking delivered_example =
     Inr '' Delivered via UPS on 2024-01-05 at Austin\<newline>   Last updated: 2024-01-05T10:00\<newline>   Total events: 1''"
  by code_simp

text \<open>
  Claim C6. For the parcel in transit the output is
  \<^verbatim>\<open>In transit via DHL, currently in Reno - Departed facility\<close>, a line break,
  \<^verbatim>\<open>   Expected delivery: 2024-02-01\<close>, and then the line \<^verbatim>\<open>Total events: 1\<close> (indented
  like the line before it). The checkpoint has no date, so no other line is present.
\<close>

theorem in_transit_example_output:
  "get_tracking in_transit_example =
     Inr (''In transit via DHL, currently in Reno - Departed facility\<newline>   Expected delivery: 2024-02-01''
          @ ''\<newline>   Total events: 1'')"
  by code_simp

section \<open>The fallback branch\<close>

text \<open>
  Claim C7, as the specification words it: a tag that is present and is none of the six
  known values gives \<open>{statusTag} via {carrier}\<close>. For the tag that is present and
  empty this would be \<^verbatim>\<open> via UPS\<close>; the code tests the truth value of the tag, finds
  the empty string false, and writes the tracking number instead.
\<close>

theorem fallback_summary_counterexample:
  "create_summary (JDict empty_tag_example) \<noteq> Inr ('''' @ '' via '' @ ''UPS'')"
  by code_simp

text \<open>
  Claim C7, amended. Let the carrier of the shipment be rendered as \<open>carrier\<close>, let
  \<open>ckv\<close> be its latest checkpoint (the empty record when there is none), and let its
  tag be none of the six known values. Then the summary is \<open>{statusTag} via {carrier}\<close>
  when the tag is present and not empty, and \<open>Tracking {trackingNumber} via {carrier}\<close>
  when the tag is absent or empty, with \<^verbatim>\<open>Unknown\<close> for an absent tracking number;
  \<open> - {remark} ({city})\<close> is appended when remark and city are both present and not
  empty, else \<open> - {remark}\<close> when the remark is present and not empty, else nothing.
  In particular the tag \<^verbatim>\<open>CustomsHold\<close> with no checkpoints gives
  \<open>CustomsHold via {carrier}\<close> and no suffix.

  ``Present and not empty'' is the truth value of the field, and the text inserted is
  its \<^verbatim>\<open>str\<close>: for a string field, \<open>truthy (JStr s)\<close> is \<open>s \<noteq> []\<close> and
  \<open>py_str (JStr s)\<close> is \<open>s\<close>.
\<close>

theorem fallback_summary:
  assumes "format_carrier (dict_get kvs ''slug'' JNull) = Inr carrier"
    and "dict_get kvs ''checkpoints'' (JList []) = JList cps"
    and "latest_is cps ckv"
    and "dict_get kvs ''tag'' JNull \<notin> JStr ` set known_tags"
  shows "create_summary (JDict kvs) =
           Inr ((if truthy (dict_get kvs ''tag'' JNull)
                 then py_str (dict_get kvs ''tag'' JNull) @ '' via '' @ carrier
                 else ''Tracking '' @ py_str (dict_get kvs ''tracking_number'' (JStr ''Unknown''))
                      @ '' via '' @ carrier)
                @ (if truthy (dict_get ckv ''city'' (JStr []))
                      \<and> truthy (dict_get ckv ''remark'' (JStr []))
                   then '' - '' @ py_str (dict_get ckv ''remark'' (JStr []))
                        @ '' ('' @ py_str (dict_get ckv ''city'' (JStr [])) @ '')''
                   else if truthy (dict_get ckv ''remark'' (JStr []))
                   then '' - '' @ py_str (dict_get ckv ''remark'' (JStr []))
                   else []))
         \<and> (dict_get kvs ''tag'' JNull = JStr ''CustomsHold'' \<and> cps = []
              \<longrightarrow> create_summary (JDict kvs) = Inr (''CustomsHold via '' @ carrier))"
proof -
  have unknown: "dict_get kvs ''tag'' JNull \<noteq> JStr t" if "t \<in> set known_tags" for t
    using assms(4) that by auto
  have general: "create_summary (JDict kvs) =
           Inr ((if truthy (dict_get kvs ''tag'' JNull)
                 then py_str (dict_get kvs ''tag'' JNull) @ '' via '' @ carrier
                 else ''Tracking '' @ py_str (dict_get kvs ''tracking_number'' (JStr ''Unknown''))
                      @ '' via '' @ carrier)
                @ (if truthy (dict_get ckv ''city'' (JStr []))
                      \<and> truthy (dict_get ckv ''remark'' (JStr []))
                   then '' - '' @ py_str (dict_get ckv ''remark'' (JStr []))
                        @ '' ('' @ py_str (dict_get ckv ''city'' (JStr [])) @ '')''
                   else if truthy (dict_get ckv ''remark'' (JStr []))
                   then '' - '' @ py_str (dict_get ckv ''remark'' (JStr []))
                   else []))"
    using unknown
    by (simp add: create_summary_records [OF assms(1-3)] summary_text_def known_tags_def)
  have "ckv = []" if "cps = []"
    using assms(3) that by (simp add: latest_is_def)
  with general show ?thesis
    by auto
qed

text \<open>The shipment tagged \<^verbatim>\<open>CustomsHold\<close>, carried by \<^verbatim>\<open>ups\<close>, with no checkpoints.\<close>

theorem fallback_summary_witness:
  "create_summary (JDict customs_hold_example) = Inr ''CustomsHold via UPS''"
proof -
  have carrier: "format_carrier (dict_get customs_hold_example ''slug'' JNull) = Inr ''UPS''"
    by code_simp
  have cps: "dict_get customs_hold_example ''checkpoints'' (JList []) = JList []"
    by code_simp
  have latest: "latest_is [] []"
    by (simp add: latest_is_def)
  have unknown: "dict_get customs_hold_example ''tag'' JNull \<notin> JStr ` set known_tags"
    by code_simp
  have tag: "dict_get customs_hold_example ''tag'' JNull = JStr ''CustomsHold''"
    by code_simp
  from fallback_summary [OF carrier cps latest unknown] tag show ?thesis
    by simp
qed

section \<open>The annotations after the summary\<close>



text \<open>
  Absent means that the key is missing. A shipment whose \<^verbatim>\<open>checkpoints\<close> key is present
  with the value \<^verbatim>\<open>None\<close> holds no sequence at all: \<^verbatim>\<open>len(None)\<close> raises, and the
  answer is the error text.
\<close>

lemma null_checkpoints_message:
  "get_tracking (JList [JDict [(''slug'', JStr ''ups''), (''checkpoints'', JNull)]]) =
     Inr (''Error processing tracking data: object of type '' @ [CHR 0x27] @ ''NoneType''
          @ [CHR 0x27] @ '' has no len()'')"
  by code_simp

section \<open>Determinism and the older checkpoints\<close>



text \<open>
  Claim C10. Take two responses whose first shipments agree on every field other than
  the checkpoints, whose checkpoint sequences have the same length, and whose first
  checkpoints are equal. Then \<^verbatim>\<open>get_tracking\<close> returns the same for both: the
  checkpoints after the first reach the output only through their number. The other
  shipments of the two responses may differ as well.
\<close>

theorem later_checkpoints_noninterference:
  assumes "\<forall>k. k \<noteq> ''checkpoints'' \<longrightarrow> map_of kvs1 k = map_of kvs2 k"
    and "dict_get kvs1 ''checkpoints'' (JList []) = JList cps1"
    and "dict_get kvs2 ''checkpoints'' (JList []) = JList cps2"
    and "length cps1 = length cps2"
    and "cps1 \<noteq> [] \<longrightarrow> cps1 ! 0 = cps2 ! 0"
  shows "get_tracking (JList (JDict kvs1 # rest1)) = get_tracking (JList (JDict kvs2 # rest2))"
proof -
  have same: "dict_get kvs1 k d = dict_get kvs2 k d" if "k \<noteq> ''checkpoints''" for k d
    using assms(1) that by (simp add: dict_get_def)
  have cs: "create_summary (JDict kvs1) = create_summary (JDict kvs2)"
    using assms(4,5) unfolding create_summary_dict assms(2,3)
    by (cases cps1; cases cps2) (simp_all add: same)
  have "annotate (JDict kvs1) s = annotate (JDict kvs2) s" for s
    using assms(4,5) by (cases cps1; cases cps2) (simp_all add: annotate_def assms(2,3))
  then have an: "annotate (JDict kvs1) = annotate (JDict kvs2)"
    by (rule ext)
  show ?thesis
    by (simp add: get_tracking_def protected_body_def cs an)
qed

text \<open>The two picked-up parcels that differ in their older checkpoint.\<close>

theorem later_checkpoints_noninterference_witness:
  "get_tracking (JList [JDict two_events_a]) = get_tracking (JList [JDict two_events_b])"
proof -
  have fields: "\<forall>k. k \<noteq> ''checkpoints'' \<longrightarrow> map_of two_events_a k = map_of two_events_b k"
    by (simp add: two_events_a_def two_events_b_def)
  have a: "dict_get two_events_a ''checkpoints'' (JList []) =
             JList [JDict [(''city'', JStr ''Austin''), (''date'', JStr ''2024-03-02'')],
                    JDict [(''city'', JStr ''Dallas''), (''date'', JStr ''2024-03-01'')]]"
    by code_simp
  have b: "dict_get two_events_b ''checkpoints'' (JList []) =
             JList [JDict [(''city'', JStr ''Austin''), (''date'', JStr ''2024-03-02'')],
                    JDict [(''city'', JStr ''Houston''), (''remark'', JStr ''Label created'')]]"
    by code_simp
  show ?thesis
    by (rule later_checkpoints_noninterference [OF fields a b]) simp_all
qed

end
